theory Spec2Isabelle
  imports Complex_Main "HOL-Library.Multiset" "HOL-Library.Sublist"
begin

section \<open>JavaScript values used by the handlers\<close>

text \<open>
  Numbers that carry a fraction (the draws of \<open>Math.random()\<close>, the scores of the
  Sightengine response) are modelled as \<open>real\<close>; the legitimacy score and the penalties,
  which the source only ever writes as integer literals, are \<open>int\<close>. A property that may
  be \<open>undefined\<close> is an \<open>option\<close>. Strings are \<open>string\<close>.
\<close>

definition Math_round :: "real \<Rightarrow> int" where
  "Math_round x = \<lfloor>x + 1 / 2\<rfloor>"

definition Math_floor :: "real \<Rightarrow> int" where
  "Math_floor x = \<lfloor>x\<rfloor>"

text \<open>
  Decimal rendering of an integer inside a template literal (all digits, as JavaScript
  prints an integer of magnitude below \<open>10^21\<close>).
\<close>

fun string_of_nat :: "nat \<Rightarrow> string" where
  "string_of_nat n =
     (if n < 10 then [''0123456789'' ! n]
      else string_of_nat (n div 10) @ [''0123456789'' ! (n mod 10)])"

declare string_of_nat.simps [simp del]

definition string_of_int :: "int \<Rightarrow> string" where
  "string_of_int i = (if i < 0 then ''-'' @ string_of_nat (nat (- i)) else string_of_nat (nat i))"

text \<open>\<open>xs[i]\<close>: \<open>undefined\<close> outside the array.\<close>

definition js_index :: "'a list \<Rightarrow> int \<Rightarrow> 'a option" where
  "js_index xs i = (if 0 \<le> i \<and> i < int (length xs) then Some (xs ! nat i) else None)"

text \<open>\<open>s || d\<close> for a string-or-undefined \<open>s\<close>: \<open>undefined\<close> and the empty string are falsy.\<close>

definition or_else :: "string option \<Rightarrow> string \<Rightarrow> string" where
  "or_else s d = (case s of None \<Rightarrow> d | Some v \<Rightarrow> if v = [] then d else v)"

text \<open>A string-or-undefined inside a template literal.\<close>

definition interpolate :: "string option \<Rightarrow> string" where
  "interpolate s = (case s of None \<Rightarrow> ''undefined'' | Some v \<Rightarrow> v)"

text \<open>Truthiness of a string-or-undefined and of a number-or-undefined.\<close>

definition truthy_string :: "string option \<Rightarrow> bool" where
  "truthy_string s = (case s of None \<Rightarrow> False | Some v \<Rightarrow> v \<noteq> [])"

definition truthy_number :: "real option \<Rightarrow> bool" where
  "truthy_number x = (case x of None \<Rightarrow> False | Some v \<Rightarrow> v \<noteq> 0)"

text \<open>
  A property read as a number that may also be \<open>undefined\<close> or \<open>null\<close>, and the
  comparison \<open>x < c\<close> with a number \<open>c\<close>: \<open>undefined\<close> converts to \<open>NaN\<close>, so the
  comparison is false; \<open>null\<close> converts to 0.
\<close>

datatype JsNumber = Undefined | Null | Number real

definition js_less :: "JsNumber \<Rightarrow> real \<Rightarrow> bool" where
  "js_less x c = (case x of Undefined \<Rightarrow> False | Null \<Rightarrow> 0 < c | Number v \<Rightarrow> v < c)"

section \<open>Data model\<close>

record Finding =
  category :: string
  status :: string
  detail :: string

text \<open>The object a \<open>check...\<close> function returns; only \<open>checkTemplate\<close> sets
  \<open>detectedSportsbook\<close>.\<close>

record CheckResult =
  finding :: Finding
  penalty :: int
  detectedSportsbook :: "string option"

text \<open>The body of the 200 response of the placeholder and the canvas-backed verifier.\<close>

record Report =
  verdict :: string
  confidence :: int
  findings :: "Finding list"
  sportsbook :: string

text \<open>What a handler threw into its own \<open>catch\<close>: \<open>new Error(message)\<close>, or a
  \<open>TypeError\<close> of the runtime (whose message is the runtime's).\<close>

datatype Thrown = Error string | TypeError

text \<open>
  The response of a handler:
  \<open>Status405\<close> is \<open>res.status(405).json({ error: 'Method not allowed' })\<close>,
  \<open>Status200 r\<close> is \<open>res.status(200).json(r)\<close>,
  \<open>Status500 e\<close> is \<open>res.status(500).json({ error: 'Verification failed', message: e.message })\<close>.
\<close>

datatype 'r Response = Status405 | Status200 'r | Status500 Thrown

text \<open>
  The parts of the request the handlers read. \<open>req_method\<close> is \<open>req.method\<close>;
  \<open>body req = None\<close> is an undefined
  \<open>req.body\<close>; \<open>body_file\<close> is \<open>req.body.file\<close>, \<open>body_image\<close> is
  \<open>req.body.image\<close>, \<open>files_file\<close> is \<open>req.files.file\<close> and \<open>data\<close> its
  \<open>data\<close> property.
\<close>

record ReqBody =
  body_file :: "string option"
  body_image :: "string option"

record Upload =
  data :: string

record ReqFiles =
  files_file :: "Upload option"

record Request =
  req_method :: string
  body :: "ReqBody option"
  files :: "ReqFiles option"

section \<open>The placeholder verifier (src/Api/verify-slip.js)\<close>

text \<open>Each analyzer takes the value its call of \<open>Math.random()\<close> returned.\<close>

definition checkMetadata :: "real \<Rightarrow> CheckResult" where
  "checkMetadata r =
     (let hasEditingSoftware = (r > 0.8) in
      if hasEditingSoftware then
        \<lparr>finding = \<lparr>category = ''Metadata'', status = ''negative'',
                    detail = ''Image shows signs of editing software usage.''\<rparr>,
         penalty = 30, detectedSportsbook = None\<rparr>
      else
        \<lparr>finding = \<lparr>category = ''Metadata'', status = ''neutral'',
                    detail = ''No strong metadata indicators found.''\<rparr>,
         penalty = 0, detectedSportsbook = None\<rparr>)"

definition checkCompression :: "real \<Rightarrow> CheckResult" where
  "checkCompression r =
     (let hasIrregularCompression = (r > 0.7) in
      if hasIrregularCompression then
        \<lparr>finding = \<lparr>category = ''Compression Anomaly'', status = ''negative'',
                    detail = ''Irregular compression detected near critical regions.''\<rparr>,
         penalty = 25, detectedSportsbook = None\<rparr>
      else
        \<lparr>finding = \<lparr>category = ''Compression'', status = ''positive'',
                    detail = ''Compression artifacts appear uniform across image.''\<rparr>,
         penalty = 0, detectedSportsbook = None\<rparr>)"

definition checkFonts :: "real \<Rightarrow> CheckResult" where
  "checkFonts r =
     (let hasInconsistentFonts = (r > 0.8) in
      if hasInconsistentFonts then
        \<lparr>finding = \<lparr>category = ''Font Mismatch'', status = ''negative'',
                    detail = ''Multiple font styles detected where uniform font is expected.''\<rparr>,
         penalty = 20, detectedSportsbook = None\<rparr>
      else
        \<lparr>finding = \<lparr>category = ''Font Consistency'', status = ''positive'',
                    detail = ''Fonts appear consistent with known sportsbook typography.''\<rparr>,
         penalty = 0, detectedSportsbook = None\<rparr>)"

definition knownSportsbooks :: "string list" where
  "knownSportsbooks = [''FanDuel'', ''DraftKings'', ''BetMGM'', ''Caesars'']"

text \<open>\<open>checkTemplate\<close> draws twice: \<open>r1\<close> picks the sportsbook, \<open>r2\<close> decides the match.\<close>

definition checkTemplate :: "real \<Rightarrow> real \<Rightarrow> CheckResult" where
  "checkTemplate r1 r2 =
     (let detected = js_index knownSportsbooks (Math_floor (r1 * real (length knownSportsbooks)));
          matchesTemplate = (r2 > 0.3) in
      if matchesTemplate then
        \<lparr>finding = \<lparr>category = ''Layout Match'', status = ''positive'',
                    detail = ''Slip layout matches known '' @ interpolate detected @ '' template.''\<rparr>,
         penalty = 0, detectedSportsbook = detected\<rparr>
      else
        \<lparr>finding = \<lparr>category = ''Template Drift'', status = ''negative'',
                    detail = ''Spacing and layout differ from known sportsbook templates.''\<rparr>,
         penalty = 25, detectedSportsbook = Some ''Unknown''\<rparr>)"

text \<open>
  The body of the handler's \<open>try\<close> block from \<open>const findings = []\<close> to the 200
  response, as a function of the four objects the analyzers returned. The same
  statements stand in the canvas-backed verifier.
\<close>

definition handler_body :: "CheckResult \<Rightarrow> CheckResult \<Rightarrow> CheckResult \<Rightarrow> CheckResult \<Rightarrow> Report" where
  "handler_body metadataCheck compressionCheck fontCheck templateCheck =
     (let findings0 = [];
          legitimacyScore0 = 100;
          findings1 = findings0 @ [finding metadataCheck];
          legitimacyScore1 = legitimacyScore0 - penalty metadataCheck;
          findings2 = findings1 @ [finding compressionCheck];
          legitimacyScore2 = legitimacyScore1 - penalty compressionCheck;
          findings3 = findings2 @ [finding fontCheck];
          legitimacyScore3 = legitimacyScore2 - penalty fontCheck;
          findings4 = findings3 @ [finding templateCheck];
          legitimacyScore4 = legitimacyScore3 - penalty templateCheck;
          confidence = max 0 (min 100 legitimacyScore4);
          verdict = (if confidence \<ge> 70 then ''Likely Legitimate'' else ''Likely Fabricated'')
      in \<lparr>verdict = verdict,
          confidence = Math_round (real_of_int confidence),
          findings = findings4,
          sportsbook = or_else (detectedSportsbook templateCheck) ''Unknown''\<rparr>)"

text \<open>The handler never reads the request beyond its method.\<close>

definition handler_placeholder ::
  "Request \<Rightarrow> real \<Rightarrow> real \<Rightarrow> real \<Rightarrow> real \<Rightarrow> real \<Rightarrow> Report Response" where
  "handler_placeholder req r1 r2 r3 r4 r5 =
     (if req_method req \<noteq> ''POST'' then Status405
      else Status200 (handler_body (checkMetadata r1) (checkCompression r2) (checkFonts r3)
                        (checkTemplate r4 r5)))"

text \<open>
  The analyzers of this file have no \<open>catch\<close> of their own: an exception raised inside
  a call of one of them leaves the handler's \<open>try\<close> block at that call and reaches the
  handler's \<open>catch\<close>, which answers 500 with the message of the exception. The handler
  with the outcome of each call made explicit: \<open>Inl e\<close> when the call threw \<open>e\<close>, \<open>Inr\<close>
  of its draws of \<open>Math.random()\<close> when it returned. \<open>handler_placeholder\<close> is the
  case in which every call returns.
\<close>

definition handler_placeholder_try ::
  "Request \<Rightarrow> Thrown + real \<Rightarrow> Thrown + real \<Rightarrow> Thrown + real \<Rightarrow> Thrown + real \<times> real
     \<Rightarrow> Report Response" where
  "handler_placeholder_try req o1 o2 o3 o4 =
     (if req_method req \<noteq> ''POST'' then Status405
      else case o1 of
        Inl e \<Rightarrow> Status500 e
      | Inr r1 \<Rightarrow>
          (case o2 of
             Inl e \<Rightarrow> Status500 e
           | Inr r2 \<Rightarrow>
               (case o3 of
                  Inl e \<Rightarrow> Status500 e
                | Inr r3 \<Rightarrow>
                    (case o4 of
                       Inl e \<Rightarrow> Status500 e
                     | Inr (r4, r5) \<Rightarrow>
                         Status200 (handler_body (checkMetadata r1) (checkCompression r2)
                                      (checkFonts r3) (checkTemplate r4 r5))))))"

section \<open>The canvas-backed verifier (src/unnamed/part_000, second file)\<close>

text \<open>
  Here every analyzer wraps its work in \<open>try\<close>/\<open>catch\<close>. The work inside the \<open>try\<close>
  is a placeholder for a real detector; an \<open>Attempt\<close> is how it went: \<open>Throws\<close> when
  an exception was raised inside the \<open>try\<close>, \<open>Yields v\<close> when it ran through, \<open>v\<close>
  being what its calls of \<open>Math.random()\<close> returned. The \<open>catch\<close> of an analyzer does
  not read the exception, so \<open>Throws\<close> carries none.
\<close>

datatype 'a Attempt = Throws | Yields 'a

record Exif =
  Software :: "string option"

text \<open>\<open>s.includes(p)\<close>\<close>

fun includes_str :: "string \<Rightarrow> string \<Rightarrow> bool" where
  "includes_str [] p = (p = [])"
| "includes_str (c # cs) p = (take (length p) (c # cs) = p \<or> includes_str cs p)"

definition checkMetadata_canvas :: "unit Attempt \<Rightarrow> CheckResult" where
  "checkMetadata_canvas a =
     (case a of
        Throws \<Rightarrow>
          \<lparr>finding = \<lparr>category = ''Metadata'', status = ''neutral'',
                      detail = ''Metadata analysis inconclusive.''\<rparr>,
           penalty = 0, detectedSportsbook = None\<rparr>
      | Yields u \<Rightarrow>
          (let exif = \<lparr>Software = None\<rparr>;
               hasEditingSoftware =
                 (case Software exif of
                    None \<Rightarrow> False
                  | Some s \<Rightarrow> includes_str s ''Photoshop'' \<or> includes_str s ''GIMP'') in
           if hasEditingSoftware then
             \<lparr>finding = \<lparr>category = ''Metadata'', status = ''negative'',
                         detail = ''Image shows signs of editing software usage.''\<rparr>,
              penalty = 30, detectedSportsbook = None\<rparr>
           else
             \<lparr>finding = \<lparr>category = ''Metadata'', status = ''neutral'',
                         detail = ''No strong metadata indicators found.''\<rparr>,
              penalty = 0, detectedSportsbook = None\<rparr>))"

definition checkCompression_canvas :: "real Attempt \<Rightarrow> CheckResult" where
  "checkCompression_canvas a =
     (case a of
        Throws \<Rightarrow>
          \<lparr>finding = \<lparr>category = ''Compression'', status = ''neutral'',
                      detail = ''Compression analysis inconclusive.''\<rparr>,
           penalty = 5, detectedSportsbook = None\<rparr>
      | Yields r \<Rightarrow>
          (let hasIrregularCompression = (r > 0.7) in
           if hasIrregularCompression then
             \<lparr>finding = \<lparr>category = ''Compression Anomaly'', status = ''negative'',
                         detail = ''Irregular compression detected near critical regions (amounts/odds).''\<rparr>,
              penalty = 25, detectedSportsbook = None\<rparr>
           else
             \<lparr>finding = \<lparr>category = ''Compression'', status = ''positive'',
                         detail = ''Compression artifacts appear uniform across image.''\<rparr>,
              penalty = 0, detectedSportsbook = None\<rparr>))"

definition checkFonts_canvas :: "real Attempt \<Rightarrow> CheckResult" where
  "checkFonts_canvas a =
     (case a of
        Throws \<Rightarrow>
          \<lparr>finding = \<lparr>category = ''Font Analysis'', status = ''neutral'',
                      detail = ''Font analysis inconclusive.''\<rparr>,
           penalty = 5, detectedSportsbook = None\<rparr>
      | Yields r \<Rightarrow>
          (let hasInconsistentFonts = (r > 0.8) in
           if hasInconsistentFonts then
             \<lparr>finding = \<lparr>category = ''Font Mismatch'', status = ''negative'',
                         detail = ''Multiple font styles detected where uniform font is expected.''\<rparr>,
              penalty = 20, detectedSportsbook = None\<rparr>
           else
             \<lparr>finding = \<lparr>category = ''Font Consistency'', status = ''positive'',
                         detail = ''Fonts appear consistent with known sportsbook typography.''\<rparr>,
              penalty = 0, detectedSportsbook = None\<rparr>))"

definition checkTemplate_canvas :: "(real \<times> real) Attempt \<Rightarrow> CheckResult" where
  "checkTemplate_canvas a =
     (case a of
        Throws \<Rightarrow>
          \<lparr>finding = \<lparr>category = ''Template Matching'', status = ''neutral'',
                      detail = ''Template matching inconclusive.''\<rparr>,
           penalty = 10, detectedSportsbook = Some ''Unknown''\<rparr>
      | Yields (r1, r2) \<Rightarrow>
          (let detected = js_index knownSportsbooks (Math_floor (r1 * real (length knownSportsbooks)));
               matchesTemplate = (r2 > 0.3) in
           if matchesTemplate then
             \<lparr>finding = \<lparr>category = ''Layout Match'', status = ''positive'',
                         detail = ''Slip layout matches known '' @ interpolate detected @ '' template.''\<rparr>,
              penalty = 0, detectedSportsbook = detected\<rparr>
           else
             \<lparr>finding = \<lparr>category = ''Template Drift'', status = ''negative'',
                         detail = ''Spacing and layout differ from known sportsbook templates.''\<rparr>,
              penalty = 25, detectedSportsbook = Some ''Unknown''\<rparr>))"

text \<open>
  \<open>const imageBuffer = req.body.file || Buffer.from(req.body.image, 'base64')\<close>:
  reading \<open>file\<close> of an undefined \<open>req.body\<close> is a \<open>TypeError\<close>, and so is
  \<open>Buffer.from(undefined, 'base64')\<close>; decoding a string never throws. The result is
  the buffer, whose contents no analyzer reads.
\<close>

definition decode_image :: "ReqBody \<Rightarrow> Thrown + string" where
  "decode_image b = (case body_image b of None \<Rightarrow> Inl TypeError | Some s \<Rightarrow> Inr s)"

definition imageBuffer :: "Request \<Rightarrow> Thrown + string" where
  "imageBuffer req =
     (case body req of
        None \<Rightarrow> Inl TypeError
      | Some b \<Rightarrow>
          (case body_file b of
             None \<Rightarrow> decode_image b
           | Some f \<Rightarrow> if f = [] then decode_image b else Inr f))"

definition handler_canvas ::
  "Request \<Rightarrow> unit Attempt \<Rightarrow> real Attempt \<Rightarrow> real Attempt \<Rightarrow> (real \<times> real) Attempt \<Rightarrow> Report Response" where
  "handler_canvas req a1 a2 a3 a4 =
     (if req_method req \<noteq> ''POST'' then Status405
      else case imageBuffer req of
        Inl e \<Rightarrow> Status500 e
      | Inr buf \<Rightarrow>
          Status200 (handler_body (checkMetadata_canvas a1) (checkCompression_canvas a2)
                       (checkFonts_canvas a3) (checkTemplate_canvas a4)))"

section \<open>The Sightengine-backed verifier (src/unnamed/part_000, first file)\<close>

record Env =
  SIGHTENGINE_API_USER :: "string option"
  SIGHTENGINE_API_SECRET :: "string option"

text \<open>
  The parts of the Sightengine response the handler reads: \<open>data_type d\<close> is
  \<open>data.type\<close> and \<open>ai_generated\<close> its property, \<open>data_quality d\<close> is \<open>data.quality\<close>
  and \<open>score\<close> its property, \<open>data_faces d\<close> is \<open>data.faces\<close>, an array whose
  elements are never read. \<open>None\<close> is a property that is \<open>undefined\<close> or \<open>null\<close>: the
  handler only tests these for truthiness, and both are falsy. The \<open>score\<close> is compared
  with a number, where \<open>undefined\<close> and \<open>null\<close> differ.
\<close>

record AiType =
  ai_generated :: "real option"

record Quality =
  score :: JsNumber

record SightengineData =
  data_type :: "AiType option"
  data_quality :: "Quality option"
  data_faces :: "unit list option"

record SightengineReport =
  se_verdict :: string
  se_confidence :: int
  se_findings :: "Finding list"
  se_sportsbook :: "string option"
  rawData :: SightengineData

text \<open>
  The answer of \<open>fetch\<close> and of \<open>response.json()\<close>: either may throw; otherwise the
  response has its \<open>ok\<close> flag, its \<open>status\<close> and its parsed body.
\<close>

record HttpResponse =
  ok :: bool
  http_status :: nat
  json :: "Thrown + SightengineData"

datatype FetchOutcome = FetchThrows Thrown | Responds HttpResponse

text \<open>
  The three checks on the response, each as the effect of its \<open>if\<close> statement on the
  pair of \<open>findings\<close> (here \<open>fs\<close>) and \<open>legitimacyScore\<close>.
  \<open>if (data.type && data.type.ai_generated)\<close> tests truthiness: the number 0 is falsy.
  The percentage in the detail of the finding is computed here in exact arithmetic on
  the value of the score; the code multiplies in IEEE double arithmetic, so for some
  scores its digits differ by one. Category, status and deduction do not depend on it.
\<close>

definition check_ai :: "SightengineData \<Rightarrow> Finding list \<times> int \<Rightarrow> Finding list \<times> int" where
  "check_ai d st =
     (case st of (fs, legitimacyScore) \<Rightarrow>
      (case data_type d of
         None \<Rightarrow> (fs, legitimacyScore)
       | Some t \<Rightarrow>
           if truthy_number (ai_generated t) then
             (case ai_generated t of
                None \<Rightarrow> (fs, legitimacyScore)
              | Some aiScore \<Rightarrow>
                  if aiScore > 0.7 then
                    (fs @ [\<lparr>category = ''AI Detection'', status = ''negative'',
                        detail = ''High probability ('' @ string_of_int (Math_round (aiScore * 100))
                          @ ''%) of AI-generated or heavily manipulated content.''\<rparr>],
                     legitimacyScore - 40)
                  else if aiScore > 0.4 then
                    (fs @ [\<lparr>category = ''AI Detection'', status = ''negative'',
                        detail = ''Moderate probability ('' @ string_of_int (Math_round (aiScore * 100))
                          @ ''%) of digital manipulation detected.''\<rparr>],
                     legitimacyScore - 25)
                  else
                    (fs @ [\<lparr>category = ''AI Detection'', status = ''positive'',
                        detail = ''Low probability of AI generation or heavy manipulation.''\<rparr>],
                     legitimacyScore))
           else (fs, legitimacyScore)))"

text \<open>\<open>quality.score < 0.5\<close> is false for an undefined \<open>score\<close> and true for \<open>null\<close>.\<close>

definition check_quality :: "SightengineData \<Rightarrow> Finding list \<times> int \<Rightarrow> Finding list \<times> int" where
  "check_quality d st =
     (case st of (fs, legitimacyScore) \<Rightarrow>
      (case data_quality d of
         None \<Rightarrow> (fs, legitimacyScore)
       | Some quality \<Rightarrow>
           if js_less (score quality) 0.5 then
             (fs @ [\<lparr>category = ''Image Quality'', status = ''negative'',
                 detail = ''Poor image quality may indicate screenshot or re-photograph of original.''\<rparr>],
              legitimacyScore - 15)
           else
             (fs @ [\<lparr>category = ''Image Quality'', status = ''positive'',
                 detail = ''Image quality consistent with direct capture.''\<rparr>],
              legitimacyScore)))"

definition check_faces :: "SightengineData \<Rightarrow> Finding list \<times> int \<Rightarrow> Finding list \<times> int" where
  "check_faces d st =
     (case st of (fs, legitimacyScore) \<Rightarrow>
      if (case data_faces d of None \<Rightarrow> False | Some faces \<Rightarrow> length faces > 0) then
        (fs @ [\<lparr>category = ''Content Analysis'', status = ''negative'',
            detail = ''Unexpected content detected (faces found in image).''\<rparr>],
         legitimacyScore - 20)
      else (fs, legitimacyScore))"

definition knownSportsbooks_se :: "string list" where
  "knownSportsbooks_se = [''FanDuel'', ''DraftKings'', ''BetMGM'', ''Caesars'', ''Unknown'']"

text \<open>
  The handler from \<open>const findings = []\<close> to the 200 response, for the parsed
  response \<open>d\<close> and the value \<open>r\<close> its one call of \<open>Math.random()\<close> returned.
\<close>

definition sightengine_body :: "SightengineData \<Rightarrow> real \<Rightarrow> SightengineReport" where
  "sightengine_body d r =
     (case check_faces d (check_quality d (check_ai d ([], 100))) of
        (fs, legitimacyScore) \<Rightarrow>
          (let detected = js_index knownSportsbooks_se
                            (Math_floor (r * real (length knownSportsbooks_se)));
               findings' = fs @ [\<lparr>category = ''Layout Analysis'', status = ''neutral'',
                   detail = ''Analyzing against '' @ interpolate detected @ '' template patterns.''\<rparr>];
               confidence = max 0 (min 100 legitimacyScore);
               verdict = (if confidence \<ge> 70 then ''Likely Legitimate'' else ''Likely Fabricated'')
           in \<lparr>se_verdict = verdict,
               se_confidence = Math_round (real_of_int confidence),
               se_findings = findings',
               se_sportsbook = detected,
               rawData = d\<rparr>))"

text \<open>
  The image the handler attaches as \<open>media\<close>: \<open>req.body.file\<close> when truthy, else
  \<open>req.files.file.data\<close> when \<open>req.files.file\<close> is there, else it throws.
\<close>

definition media :: "Request \<Rightarrow> Thrown + string" where
  "media req =
     (let from_files =
            (case files req of
               None \<Rightarrow> Inl (Error ''No image file provided'')
             | Some fs \<Rightarrow>
                 (case files_file fs of
                    None \<Rightarrow> Inl (Error ''No image file provided'')
                  | Some u \<Rightarrow> Inr (data u)))
      in case body req of
           None \<Rightarrow> from_files
         | Some b \<Rightarrow>
             (case body_file b of
                None \<Rightarrow> from_files
              | Some f \<Rightarrow> if f = [] then from_files else Inr f))"

text \<open>
  \<open>fetch\<close> is the Sightengine service: it answers the form data, here the list of the
  appended fields.
\<close>

definition handler_sightengine ::
  "Env \<Rightarrow> ((string \<times> string) list \<Rightarrow> FetchOutcome) \<Rightarrow> Request \<Rightarrow> real \<Rightarrow> SightengineReport Response" where
  "handler_sightengine env fetch req r =
     (if req_method req \<noteq> ''POST'' then Status405
      else if \<not> truthy_string (SIGHTENGINE_API_USER env) \<or> \<not> truthy_string (SIGHTENGINE_API_SECRET env)
        then Status500 (Error ''Sightengine credentials not configured'')
      else case media req of
        Inl e \<Rightarrow> Status500 e
      | Inr m \<Rightarrow>
          (case fetch [(''media'', m), (''models'', ''genai''),
                       (''api_user'', interpolate (SIGHTENGINE_API_USER env)),
                       (''api_secret'', interpolate (SIGHTENGINE_API_SECRET env))] of
             FetchThrows e \<Rightarrow> Status500 e
           | Responds response \<Rightarrow>
               if \<not> ok response
                 then Status500 (Error (''Sightengine API error: '' @ string_of_nat (http_status response)))
               else (case json response of
                       Inl e \<Rightarrow> Status500 e
                     | Inr d \<Rightarrow> Status200 (sightengine_body d r))))"

section \<open>The scoring algorithm of the specification\<close>

text \<open>
  The handlers call their analyzers in one fixed order. To speak of other orders, the
  algorithm in the words of the specification (section 4.2): start at 100; for each
  analyzer in the configured order, append its finding and subtract its penalty; clamp;
  derive the verdict; take the source hint of the template-match analyzer, else "Unknown".
  \<open>result a\<close> is what analyzer \<open>a\<close> returns. It is compared with \<open>handler_body\<close> below.
\<close>

datatype Analyzer = Metadata | Compression | Fonts | Template

fun run_analyzers ::
  "(Analyzer \<Rightarrow> CheckResult) \<Rightarrow> Analyzer list \<Rightarrow> Finding list \<times> int \<Rightarrow> Finding list \<times> int" where
  "run_analyzers result [] st = st"
| "run_analyzers result (a # rest) st =
     run_analyzers result rest (fst st @ [finding (result a)], snd st - penalty (result a))"

definition score_in_order :: "Analyzer list \<Rightarrow> (Analyzer \<Rightarrow> CheckResult) \<Rightarrow> Report" where
  "score_in_order order result =
     (case run_analyzers result order ([], 100) of
        (fs, legitimacyScore) \<Rightarrow>
          (let confidence = max 0 (min 100 legitimacyScore);
               verdict = (if confidence \<ge> 70 then ''Likely Legitimate'' else ''Likely Fabricated'')
           in \<lparr>verdict = verdict,
               confidence = Math_round (real_of_int confidence),
               findings = fs,
               sportsbook = or_else (detectedSportsbook (result Template)) ''Unknown''\<rparr>))"

section \<open>Measuring a check\<close>

text \<open>
  What a check of the Sightengine-backed verifier takes off the score, read off at the
  handler's initial state (no findings, score 100).
\<close>

definition deducted :: "(Finding list \<times> int \<Rightarrow> Finding list \<times> int) \<Rightarrow> int" where
  "deducted chk = 100 - snd (chk ([], 100))"

section \<open>Basic facts\<close>

lemma Math_round_of_int: "Math_round (real_of_int n) = n"
  by (simp add: Math_round_def)

lemma confidence_eq:
  "confidence (handler_body m c f t) =
     max 0 (min 100 (100 - (penalty m + penalty c + penalty f + penalty t)))"
  by (simp add: handler_body_def Let_def Math_round_of_int algebra_simps)

lemma verdict_eq:
  "verdict (handler_body m c f t) =
     (if confidence (handler_body m c f t) \<ge> 70 then ''Likely Legitimate'' else ''Likely Fabricated'')"
  by (simp add: handler_body_def Let_def Math_round_of_int)

lemma findings_eq:
  "findings (handler_body m c f t) = [finding m, finding c, finding f, finding t]"
  by (simp add: handler_body_def Let_def)

text \<open>Each check lowers the score by an amount that does not depend on the state.\<close>

lemma check_ai_snd: "snd (check_ai d (fs, s)) = s - deducted (check_ai d)"
  by (simp add: check_ai_def deducted_def split: option.splits)

lemma check_quality_snd: "snd (check_quality d (fs, s)) = s - deducted (check_quality d)"
  by (simp add: check_quality_def deducted_def split: option.splits)

lemma check_faces_snd: "snd (check_faces d (fs, s)) = s - deducted (check_faces d)"
  by (simp add: check_faces_def deducted_def split: option.splits)

lemma checks_score:
  "snd (check_faces d (check_quality d (check_ai d ([], 100)))) =
     100 - (deducted (check_ai d) + deducted (check_quality d) + deducted (check_faces d))"
proof -
  obtain f1 s1 where a: "check_ai d ([], 100) = (f1, s1)"
    by (cases "check_ai d ([], 100)")
  obtain f2 s2 where b: "check_quality d (f1, s1) = (f2, s2)"
    by (cases "check_quality d (f1, s1)")
  have "s1 = 100 - deducted (check_ai d)"
    using check_ai_snd [of d "[]" 100] a by simp
  moreover have "s2 = s1 - deducted (check_quality d)"
    using check_quality_snd [of d f1 s1] b by simp
  moreover have "snd (check_faces d (f2, s2)) = s2 - deducted (check_faces d)"
    by (rule check_faces_snd)
  ultimately show ?thesis using a b by simp
qed

lemma se_confidence_eq:
  "se_confidence (sightengine_body d r) =
     max 0 (min 100 (snd (check_faces d (check_quality d (check_ai d ([], 100))))))"
  by (simp add: sightengine_body_def Let_def Math_round_of_int split: prod.splits)

lemma se_verdict_eq:
  "se_verdict (sightengine_body d r) =
     (if se_confidence (sightengine_body d r) \<ge> 70 then ''Likely Legitimate'' else ''Likely Fabricated'')"
  by (auto simp add: sightengine_body_def Let_def Math_round_of_int split: prod.splits)

text \<open>The categories of the findings of the Sightengine-backed verifier, check by check.\<close>

lemma check_ai_fst:
  "map category (fst (check_ai d (fs, s))) =
     map category fs @ (if fst (check_ai d ([], 100)) = [] then [] else [''AI Detection''])"
  by (simp add: check_ai_def split: option.splits)

lemma check_quality_fst:
  "map category (fst (check_quality d (fs, s))) =
     map category fs @ (if data_quality d = None then [] else [''Image Quality''])"
  by (simp add: check_quality_def split: option.splits)

lemma check_faces_fst:
  "map category (fst (check_faces d (fs, s))) =
     map category fs @ (if deducted (check_faces d) = 0 then [] else [''Content Analysis''])"
  by (simp add: check_faces_def deducted_def split: option.splits)

lemma se_findings_eq:
  "se_findings (sightengine_body d r) =
     fst (check_faces d (check_quality d (check_ai d ([], 100))))
     @ [\<lparr>category = ''Layout Analysis'', status = ''neutral'',
         detail = ''Analyzing against ''
           @ interpolate (js_index knownSportsbooks_se (Math_floor (r * real (length knownSportsbooks_se))))
           @ '' template patterns.''\<rparr>]"
  by (simp add: sightengine_body_def Let_def split: prod.splits)

lemma se_findings_cases:
  "map category (se_findings (sightengine_body d r)) =
     (if fst (check_ai d ([], 100)) = [] then [] else [''AI Detection''])
     @ (if data_quality d = None then [] else [''Image Quality''])
     @ (if deducted (check_faces d) = 0 then [] else [''Content Analysis''])
     @ [''Layout Analysis'']"
proof -
  obtain f1 s1 where a: "check_ai d ([], 100) = (f1, s1)"
    by (cases "check_ai d ([], 100)")
  obtain f2 s2 where b: "check_quality d (f1, s1) = (f2, s2)"
    by (cases "check_quality d (f1, s1)")
  have 1: "map category f1 = (if f1 = [] then [] else [''AI Detection''])"
    using check_ai_fst [of d "[]" 100] a by simp
  have 2: "map category f2 = map category f1 @ (if data_quality d = None then [] else [''Image Quality''])"
    using check_quality_fst [of d f1 s1] b by simp
  have 3: "map category (fst (check_faces d (f2, s2))) =
     map category f2 @ (if deducted (check_faces d) = 0 then [] else [''Content Analysis''])"
    by (rule check_faces_fst)
  show ?thesis
    unfolding se_findings_eq a b using 1 2 3 by (simp add: a)
qed

text \<open>The responses of the handlers: 405, 500, or 200 with the body computed above.\<close>

lemma handler_placeholder_responses:
  "handler_placeholder req r1 r2 r3 r4 r5 = Status405
   \<or> handler_placeholder req r1 r2 r3 r4 r5 =
       Status200 (handler_body (checkMetadata r1) (checkCompression r2) (checkFonts r3)
                    (checkTemplate r4 r5))"
  by (simp add: handler_placeholder_def)

lemma handler_canvas_responses:
  "handler_canvas req a1 a2 a3 a4 = Status405
   \<or> handler_canvas req a1 a2 a3 a4 = Status500 TypeError
   \<or> handler_canvas req a1 a2 a3 a4 =
       Status200 (handler_body (checkMetadata_canvas a1) (checkCompression_canvas a2)
                    (checkFonts_canvas a3) (checkTemplate_canvas a4))"
  by (simp add: handler_canvas_def imageBuffer_def decode_image_def split: option.splits)

lemma handler_sightengine_responses:
  "handler_sightengine env fetch req r = Status405
   \<or> (\<exists>e. handler_sightengine env fetch req r = Status500 e)
   \<or> (\<exists>d. handler_sightengine env fetch req r = Status200 (sightengine_body d r))"
  by (auto simp add: handler_sightengine_def split: sum.splits FetchOutcome.splits)

lemma handler_canvas_ok:
  "req_method req = ''POST'' \<Longrightarrow> imageBuffer req = Inr buf \<Longrightarrow>
   handler_canvas req a1 a2 a3 a4 =
     Status200 (handler_body (checkMetadata_canvas a1) (checkCompression_canvas a2)
                  (checkFonts_canvas a3) (checkTemplate_canvas a4))"
  by (simp add: handler_canvas_def)

lemma checkFonts_canvas_Throws:
  "checkFonts_canvas Throws =
     \<lparr>finding = \<lparr>category = ''Font Analysis'', status = ''neutral'',
                 detail = ''Font analysis inconclusive.''\<rparr>,
      penalty = 5, detectedSportsbook = None\<rparr>"
  by (simp add: checkFonts_canvas_def)



lemma sportsbook_eq:
  "sportsbook (handler_body m c f t) = or_else (detectedSportsbook t) ''Unknown''"
  by (simp add: handler_body_def Let_def)


lemma media_missing:
  assumes "body req = None \<or> (\<exists>b. body req = Some b \<and> \<not> truthy_string (body_file b))"
    and "files req = None \<or> (\<exists>fs. files req = Some fs \<and> files_file fs = None)"
  shows "media req = Inl (Error ''No image file provided'')"
  using assms by (auto simp add: media_def Let_def truthy_string_def split: option.splits)

lemma imageBuffer_missing:
  assumes "body req = None
           \<or> (\<exists>b. body req = Some b \<and> \<not> truthy_string (body_file b) \<and> body_image b = None)"
  shows "imageBuffer req = Inl TypeError"
  using assms
  by (auto simp add: imageBuffer_def decode_image_def truthy_string_def split: option.splits)

lemma ai_banding:
  assumes "data_type d = Some t" and "ai_generated t = Some aiScore" and "aiScore \<noteq> 0"
  shows "aiScore > 0.7 \<Longrightarrow> check_ai d (fs, s) =
           (fs @ [\<lparr>category = ''AI Detection'', status = ''negative'',
                  detail = ''High probability ('' @ string_of_int (Math_round (aiScore * 100))
                     @ ''%) of AI-generated or heavily manipulated content.''\<rparr>], s - 40)"
    and "aiScore > 0.4 \<Longrightarrow> aiScore \<le> 0.7 \<Longrightarrow> check_ai d (fs, s) =
           (fs @ [\<lparr>category = ''AI Detection'', status = ''negative'',
                  detail = ''Moderate probability ('' @ string_of_int (Math_round (aiScore * 100))
                     @ ''%) of digital manipulation detected.''\<rparr>], s - 25)"
    and "aiScore \<le> 0.4 \<Longrightarrow> check_ai d (fs, s) =
           (fs @ [\<lparr>category = ''AI Detection'', status = ''positive'',
                  detail = ''Low probability of AI generation or heavy manipulation.''\<rparr>], s)"
  using assms by (simp_all add: check_ai_def truthy_number_def)

lemma handler_placeholder_try_returns:
  "handler_placeholder_try req (Inr r1) (Inr r2) (Inr r3) (Inr (r4, r5)) =
     handler_placeholder req r1 r2 r3 r4 r5"
  by (simp add: handler_placeholder_try_def handler_placeholder_def)

lemma handler_placeholder_try_font_throws:
  "req_method req = ''POST'' \<Longrightarrow>
   \<exists>e'. handler_placeholder_try req o1 o2 (Inl e) o4 = Status500 e'"
  by (simp add: handler_placeholder_try_def split: sum.splits)

text \<open>The run of the analyzers in a given order, in closed form.\<close>

lemma run_analyzers_eq:
  "run_analyzers result order st =
     (fst st @ map (\<lambda>a. finding (result a)) order,
      snd st - sum_list (map (\<lambda>a. penalty (result a)) order))"
  by (induction order arbitrary: st) (simp_all add: algebra_simps)

lemma sum_list_permutation:
  assumes "mset order = mset [Metadata, Compression, Fonts, Template]"
  shows "sum_list (map (g :: Analyzer \<Rightarrow> int) order) = g Metadata + g Compression + g Fonts + g Template"
proof -
  have "sum_list (map g order) = sum_mset (image_mset g (mset order))"
    by (simp add: sum_mset_sum_list [symmetric])
  also have "\<dots> = sum_mset (image_mset g (mset [Metadata, Compression, Fonts, Template]))"
    using assms by simp
  also have "\<dots> = g Metadata + g Compression + g Fonts + g Template"
    by simp
  finally show ?thesis .
qed

lemma check_quality_absent: "data_quality d = None \<Longrightarrow> check_quality d st = st"
  by (simp add: check_quality_def split: prod.splits)

lemma check_faces_absent:
  "data_faces d = None \<or> data_faces d = Some [] \<Longrightarrow> check_faces d st = st"
  by (auto simp add: check_faces_def split: prod.splits)

text \<open>A \<open>null\<close> score counts as 0 in the comparison, so it lies below 0.5.\<close>

lemma check_quality_null:
  "data_quality d = Some q \<Longrightarrow> score q = Null \<Longrightarrow>
   check_quality d (fs, s) =
     (fs @ [\<lparr>category = ''Image Quality'', status = ''negative'',
            detail = ''Poor image quality may indicate screenshot or re-photograph of original.''\<rparr>],
      s - 15)"
  by (simp add: check_quality_def js_less_def)

lemma checkMetadata_penalty: "penalty (checkMetadata r) = (if r > 0.8 then 30 else 0)"
  by (simp add: checkMetadata_def Let_def)

lemma checkCompression_penalty: "penalty (checkCompression r) = (if r > 0.7 then 25 else 0)"
  by (simp add: checkCompression_def Let_def)

lemma checkFonts_penalty: "penalty (checkFonts r) = (if r > 0.8 then 20 else 0)"
  by (simp add: checkFonts_def Let_def)

lemma checkTemplate_penalty: "penalty (checkTemplate r1 r2) = (if r2 > 0.3 then 0 else 25)"
  by (simp add: checkTemplate_def Let_def)

lemma deducted_quality:
  "deducted (check_quality d) =
     (if (\<exists>q. data_quality d = Some q \<and> js_less (score q) 0.5) then 15 else 0)"
  by (auto simp add: deducted_def check_quality_def split: option.splits)

lemma deducted_faces:
  "deducted (check_faces d) =
     (if (\<exists>faces. data_faces d = Some faces \<and> length faces > 0) then 20 else 0)"
  by (auto simp add: deducted_def check_faces_def split: option.splits)

section \<open>The confidence and the verdict\<close>

text \<open>
  C1. Whatever penalties the four analyzers return, the confidence of the report is
  \<open>max(0, min(100, 100 - sum of the penalties))\<close> and lies between 0 and 100. The same
  holds in the Sightengine-backed verifier for the amounts its three checks deduct.
\<close>

theorem confidence_clamped:
  "confidence (handler_body m c f t) =
     max 0 (min 100 (100 - (penalty m + penalty c + penalty f + penalty t)))
   \<and> 0 \<le> confidence (handler_body m c f t) \<and> confidence (handler_body m c f t) \<le> 100
   \<and> se_confidence (sightengine_body d r) =
     max 0 (min 100 (100 - (deducted (check_ai d) + deducted (check_quality d) + deducted (check_faces d))))
   \<and> 0 \<le> se_confidence (sightengine_body d r) \<and> se_confidence (sightengine_body d r) \<le> 100"
  by (simp add: confidence_eq se_confidence_eq checks_score)

text \<open>
  C2. The verdict is "Likely Legitimate" exactly when the confidence is at least 70 and
  "Likely Fabricated" exactly when it is below 70; there is no third verdict. This holds
  for the report of every verifier.
\<close>

theorem verdict_threshold:
  "(verdict (handler_body m c f t) = ''Likely Legitimate'') = (confidence (handler_body m c f t) \<ge> 70)
   \<and> (verdict (handler_body m c f t) = ''Likely Fabricated'') = (confidence (handler_body m c f t) < 70)
   \<and> verdict (handler_body m c f t) \<in> {''Likely Legitimate'', ''Likely Fabricated''}
   \<and> (se_verdict (sightengine_body d r) = ''Likely Legitimate'') = (se_confidence (sightengine_body d r) \<ge> 70)
   \<and> (se_verdict (sightengine_body d r) = ''Likely Fabricated'') = (se_confidence (sightengine_body d r) < 70)
   \<and> se_verdict (sightengine_body d r) \<in> {''Likely Legitimate'', ''Likely Fabricated''}"
  by (simp add: verdict_eq se_verdict_eq)

section \<open>The findings\<close>

text \<open>
  C3, as stated, fails on the Sightengine-backed verifier: its checks push a finding only
  under a condition, so the number of findings varies from run to run. An empty response
  gives one finding, a response with a score, a quality and a face gives four.
\<close>

theorem findings_length_counterexample:
  "length (se_findings (sightengine_body
        \<lparr>data_type = None, data_quality = None, data_faces = None\<rparr> 0)) = 1
   \<and> length (se_findings (sightengine_body
        \<lparr>data_type = Some \<lparr>ai_generated = Some 0.75\<rparr>, data_quality = Some \<lparr>score = Number 0.25\<rparr>,
           data_faces = Some [()]\<rparr> 0)) = 4"
  by (simp add: sightengine_body_def check_ai_def check_quality_def check_faces_def Let_def
      truthy_number_def js_less_def)

text \<open>
  C3, amended. The report of the placeholder and of the canvas-backed verifier holds
  exactly four findings, those of the metadata, compression, font and template analyzers
  in this order, on every path. The report of the Sightengine-backed verifier holds between
  one and four findings: at most one of each check, in the order AI detection, image
  quality, content analysis, layout analysis, the last always present.
\<close>

theorem findings_order:
  "findings (handler_body m c f t) = [finding m, finding c, finding f, finding t]
   \<and> length (findings (handler_body m c f t)) = 4
   \<and> subseq (map category (se_findings (sightengine_body d r)))
        [''AI Detection'', ''Image Quality'', ''Content Analysis'', ''Layout Analysis'']
   \<and> last (map category (se_findings (sightengine_body d r))) = ''Layout Analysis''
   \<and> 1 \<le> length (se_findings (sightengine_body d r))
   \<and> length (se_findings (sightengine_body d r)) \<le> 4"
proof -
  have "length (map category (se_findings (sightengine_body d r))) \<le> 4"
    "1 \<le> length (map category (se_findings (sightengine_body d r)))"
    "last (map category (se_findings (sightengine_body d r))) = ''Layout Analysis''"
    "subseq (map category (se_findings (sightengine_body d r)))
        [''AI Detection'', ''Image Quality'', ''Content Analysis'', ''Layout Analysis'']"
    unfolding se_findings_cases by simp_all
  then show ?thesis by (simp add: findings_eq)
qed

section \<open>Failure of an analyzer\<close>

text \<open>
  C4, as stated, fails outside the canvas-backed verifier. The font analyzer of the
  placeholder verifier has no \<open>catch\<close>: an exception thrown inside it ends the run, and
  the request is answered 500 without a report. In the Sightengine-backed verifier a call
  of the service that is rejected (here with status 503) ends the run in the same way.
\<close>

theorem analyzer_failure_aborts:
  "handler_placeholder_try
      \<lparr>req_method = ''POST'', body = Some \<lparr>body_file = Some ''slip'', body_image = None\<rparr>, files = None\<rparr>
      (Inr 0) (Inr 0) (Inl TypeError) (Inr (1/2, 1/2))
     = Status500 TypeError
   \<and> handler_sightengine
      \<lparr>SIGHTENGINE_API_USER = Some ''user'', SIGHTENGINE_API_SECRET = Some ''secret''\<rparr>
      (\<lambda>form. Responds \<lparr>ok = False, http_status = 503, json = Inl TypeError\<rparr>)
      \<lparr>req_method = ''POST'', body = Some \<lparr>body_file = Some ''slip'', body_image = None\<rparr>, files = None\<rparr> 0
     = Status500 (Error ''Sightengine API error: 503'')"
  by (simp add: handler_placeholder_try_def handler_sightengine_def media_def truthy_string_def
      string_of_nat.simps)

text \<open>
  C4, amended, for POST requests. In the canvas-backed verifier, whose analyzers catch
  their own exceptions: if the font-consistency analyzer throws inside its \<open>try\<close>, a
  request with an image is still answered 200 with a report of four findings, the third of which is the neutral
  "Font Analysis" finding, and 5 is deducted for it; whichever of its analyzers throw, the
  answer is a 200 report of four findings. In the placeholder verifier, whose analyzers
  have no \<open>catch\<close>, an exception thrown by the font analyzer reaches the handler's \<open>catch\<close>:
  the request is answered 500 and no report is returned. In the Sightengine-backed
  verifier a call of the service that throws or is rejected (response not \<open>ok\<close>) is
  answered 500 and no report is returned.
\<close>

theorem font_failure_isolated:
  assumes "req_method req = ''POST''"
  shows "(imageBuffer req = Inr buf \<longrightarrow>
           handler_canvas req a1 a2 Throws a4 =
             Status200 (handler_body (checkMetadata_canvas a1) (checkCompression_canvas a2)
                          (checkFonts_canvas Throws) (checkTemplate_canvas a4))
           \<and> (\<forall>b1 b2 b3 b4. \<exists>rep. handler_canvas req b1 b2 b3 b4 = Status200 rep
                                      \<and> length (findings rep) = 4))
       \<and> length (findings (handler_body (checkMetadata_canvas a1) (checkCompression_canvas a2)
                        (checkFonts_canvas Throws) (checkTemplate_canvas a4))) = 4
       \<and> findings (handler_body (checkMetadata_canvas a1) (checkCompression_canvas a2)
                        (checkFonts_canvas Throws) (checkTemplate_canvas a4)) ! 2
           = \<lparr>category = ''Font Analysis'', status = ''neutral'', detail = ''Font analysis inconclusive.''\<rparr>
       \<and> penalty (checkFonts_canvas Throws) = 5
       \<and> confidence (handler_body (checkMetadata_canvas a1) (checkCompression_canvas a2)
                        (checkFonts_canvas Throws) (checkTemplate_canvas a4))
           = max 0 (min 100 (100 - (penalty (checkMetadata_canvas a1) + penalty (checkCompression_canvas a2)
                                      + 5 + penalty (checkTemplate_canvas a4))))
       \<and> handler_placeholder_try req (Inr r1) (Inr r2) (Inl e) o4 = Status500 e
       \<and> (\<forall>p1 p2 p4. \<exists>e'. handler_placeholder_try req p1 p2 (Inl e) p4 = Status500 e')
       \<and> (truthy_string (SIGHTENGINE_API_USER env) \<and> truthy_string (SIGHTENGINE_API_SECRET env)
            \<and> media req = Inr m
            \<and> fetch [(''media'', m), (''models'', ''genai''),
                      (''api_user'', interpolate (SIGHTENGINE_API_USER env)),
                      (''api_secret'', interpolate (SIGHTENGINE_API_SECRET env))] = FetchThrows e
          \<longrightarrow> handler_sightengine env fetch req r = Status500 e)
       \<and> (truthy_string (SIGHTENGINE_API_USER env) \<and> truthy_string (SIGHTENGINE_API_SECRET env)
            \<and> media req = Inr m
            \<and> fetch [(''media'', m), (''models'', ''genai''),
                      (''api_user'', interpolate (SIGHTENGINE_API_USER env)),
                      (''api_secret'', interpolate (SIGHTENGINE_API_SECRET env))] = Responds response
            \<and> \<not> ok response
          \<longrightarrow> handler_sightengine env fetch req r =
                Status500 (Error (''Sightengine API error: '' @ string_of_nat (http_status response))))"
proof -
  have canvas: "imageBuffer req = Inr buf \<longrightarrow>
           handler_canvas req a1 a2 Throws a4 =
             Status200 (handler_body (checkMetadata_canvas a1) (checkCompression_canvas a2)
                          (checkFonts_canvas Throws) (checkTemplate_canvas a4))
           \<and> (\<forall>b1 b2 b3 b4. \<exists>rep. handler_canvas req b1 b2 b3 b4 = Status200 rep
                                      \<and> length (findings rep) = 4)"
    using assms by (simp add: handler_canvas_ok findings_eq)
  have placeholder: "handler_placeholder_try req (Inr r1) (Inr r2) (Inl e) o4 = Status500 e"
    using assms by (simp add: handler_placeholder_try_def)
  have placeholder_any: "\<forall>p1 p2 p4. \<exists>e'. handler_placeholder_try req p1 p2 (Inl e) p4 = Status500 e'"
    using assms by (simp add: handler_placeholder_try_font_throws)
  have service:
    "truthy_string (SIGHTENGINE_API_USER env) \<and> truthy_string (SIGHTENGINE_API_SECRET env)
            \<and> media req = Inr m
            \<and> fetch [(''media'', m), (''models'', ''genai''),
                      (''api_user'', interpolate (SIGHTENGINE_API_USER env)),
                      (''api_secret'', interpolate (SIGHTENGINE_API_SECRET env))] = FetchThrows e
          \<longrightarrow> handler_sightengine env fetch req r = Status500 e"
    "truthy_string (SIGHTENGINE_API_USER env) \<and> truthy_string (SIGHTENGINE_API_SECRET env)
            \<and> media req = Inr m
            \<and> fetch [(''media'', m), (''models'', ''genai''),
                      (''api_user'', interpolate (SIGHTENGINE_API_USER env)),
                      (''api_secret'', interpolate (SIGHTENGINE_API_SECRET env))] = Responds response
            \<and> \<not> ok response
          \<longrightarrow> handler_sightengine env fetch req r =
                Status500 (Error (''Sightengine API error: '' @ string_of_nat (http_status response)))"
    using assms by (simp_all add: handler_sightengine_def)
  have body: "length (findings (handler_body (checkMetadata_canvas a1) (checkCompression_canvas a2)
                        (checkFonts_canvas Throws) (checkTemplate_canvas a4))) = 4
       \<and> findings (handler_body (checkMetadata_canvas a1) (checkCompression_canvas a2)
                        (checkFonts_canvas Throws) (checkTemplate_canvas a4)) ! 2
           = \<lparr>category = ''Font Analysis'', status = ''neutral'', detail = ''Font analysis inconclusive.''\<rparr>
       \<and> penalty (checkFonts_canvas Throws) = 5
       \<and> confidence (handler_body (checkMetadata_canvas a1) (checkCompression_canvas a2)
                        (checkFonts_canvas Throws) (checkTemplate_canvas a4))
           = max 0 (min 100 (100 - (penalty (checkMetadata_canvas a1) + penalty (checkCompression_canvas a2)
                                      + 5 + penalty (checkTemplate_canvas a4))))"
    by (simp add: findings_eq confidence_eq checkFonts_canvas_Throws)
  show ?thesis
    using body canvas placeholder placeholder_any service by blast
qed

text \<open>
  The font analyzer throws, the others run through: the canvas-backed verifier reports
  with confidence 95, the placeholder verifier answers 500, and so does the
  Sightengine-backed verifier when the service rejects the call.
\<close>

theorem font_failure_isolated_witness:
  "handler_canvas \<lparr>req_method = ''POST'', body = Some \<lparr>body_file = Some ''slip'', body_image = None\<rparr>, files = None\<rparr>
      (Yields ()) (Yields 0) Throws (Yields (1/2, 1/2))
   = Status200
      \<lparr>verdict = ''Likely Legitimate'', confidence = 95,
       findings =
         [\<lparr>category = ''Metadata'', status = ''neutral'', detail = ''No strong metadata indicators found.''\<rparr>,
          \<lparr>category = ''Compression'', status = ''positive'',
             detail = ''Compression artifacts appear uniform across image.''\<rparr>,
          \<lparr>category = ''Font Analysis'', status = ''neutral'', detail = ''Font analysis inconclusive.''\<rparr>,
          \<lparr>category = ''Layout Match'', status = ''positive'',
             detail = ''Slip layout matches known BetMGM template.''\<rparr>],
       sportsbook = ''BetMGM''\<rparr>
   \<and> handler_placeholder_try
        \<lparr>req_method = ''POST'', body = Some \<lparr>body_file = Some ''slip'', body_image = None\<rparr>, files = None\<rparr>
        (Inr 0) (Inr 0) (Inl TypeError) (Inr (1/2, 1/2))
     = Status500 TypeError
   \<and> handler_sightengine
        \<lparr>SIGHTENGINE_API_USER = Some ''user'', SIGHTENGINE_API_SECRET = Some ''secret''\<rparr>
        (\<lambda>form. Responds \<lparr>ok = False, http_status = 404, json = Inl TypeError\<rparr>)
        \<lparr>req_method = ''POST'', body = Some \<lparr>body_file = Some ''slip'', body_image = None\<rparr>, files = None\<rparr> 0
     = Status500 (Error ''Sightengine API error: 404'')"
proof -
  let ?req = "\<lparr>req_method = ''POST'', body = Some \<lparr>body_file = Some ''slip'', body_image = None\<rparr>, files = None\<rparr>"
  let ?env = "\<lparr>SIGHTENGINE_API_USER = Some ''user'', SIGHTENGINE_API_SECRET = Some ''secret''\<rparr>"
  let ?response = "\<lparr>ok = False, http_status = 404, json = Inl TypeError\<rparr>"
  have m: "req_method ?req = ''POST''" by simp
  have i: "imageBuffer ?req = Inr ''slip''" by (simp add: imageBuffer_def)
  have b: "handler_body (checkMetadata_canvas (Yields ())) (checkCompression_canvas (Yields 0))
                        (checkFonts_canvas Throws) (checkTemplate_canvas (Yields (1/2, 1/2)))
     = \<lparr>verdict = ''Likely Legitimate'', confidence = 95,
       findings =
         [\<lparr>category = ''Metadata'', status = ''neutral'', detail = ''No strong metadata indicators found.''\<rparr>,
          \<lparr>category = ''Compression'', status = ''positive'',
             detail = ''Compression artifacts appear uniform across image.''\<rparr>,
          \<lparr>category = ''Font Analysis'', status = ''neutral'', detail = ''Font analysis inconclusive.''\<rparr>,
          \<lparr>category = ''Layout Match'', status = ''positive'',
             detail = ''Slip layout matches known BetMGM template.''\<rparr>],
       sportsbook = ''BetMGM''\<rparr>"
    by (simp add: handler_body_def checkMetadata_canvas_def checkCompression_canvas_def
        checkFonts_canvas_def checkTemplate_canvas_def Let_def Math_round_of_int or_else_def
        interpolate_def js_index_def Math_floor_def knownSportsbooks_def)
  have md: "media ?req = Inr ''slip''" by (simp add: media_def)
  have s404: "string_of_nat 404 = ''404''" by (simp add: string_of_nat.simps)
  have t: "truthy_string (SIGHTENGINE_API_USER ?env)" "truthy_string (SIGHTENGINE_API_SECRET ?env)"
    by (simp_all add: truthy_string_def)
  note w = font_failure_isolated [OF m, of "''slip''" "Yields ()" "Yields 0" "Yields (1/2, 1/2)" 0 0
      TypeError "Inr (1/2, 1/2)" ?env "''slip''" "\<lambda>form. Responds ?response" 0 ?response]
  show ?thesis
    using w i md t unfolding b by (simp add: s404)
qed

section \<open>The sportsbook of the report\<close>



section \<open>A request without an image\<close>

text \<open>
  C6, as stated, fails on the placeholder verifier: it never reads the body of the
  request, so a POST request that carries no image is answered 200 with a full report.
\<close>

theorem placeholder_reports_without_image:
  "handler_placeholder \<lparr>req_method = ''POST'', body = None, files = None\<rparr> 0 0 0 0 (1/2)
   = Status200
      \<lparr>verdict = ''Likely Legitimate'', confidence = 100,
       findings =
         [\<lparr>category = ''Metadata'', status = ''neutral'', detail = ''No strong metadata indicators found.''\<rparr>,
          \<lparr>category = ''Compression'', status = ''positive'',
             detail = ''Compression artifacts appear uniform across image.''\<rparr>,
          \<lparr>category = ''Font Consistency'', status = ''positive'',
             detail = ''Fonts appear consistent with known sportsbook typography.''\<rparr>,
          \<lparr>category = ''Layout Match'', status = ''positive'',
             detail = ''Slip layout matches known FanDuel template.''\<rparr>],
       sportsbook = ''FanDuel''\<rparr>"
  by (simp add: handler_placeholder_def handler_body_def checkMetadata_def checkCompression_def
      checkFonts_def checkTemplate_def Let_def Math_round_of_int or_else_def
      interpolate_def js_index_def Math_floor_def knownSportsbooks_def)

text \<open>
  C6, amended. A POST request that carries no image (no truthy \<open>req.body.file\<close>, no
  \<open>req.body.image\<close>, no \<open>req.files.file\<close>) is refused by the Sightengine-backed and by
  the canvas-backed verifier before any check runs. The first tests its credentials
  first: when they are missing it answers 500 with "Sightengine credentials not
  configured", when they are configured it answers 500 with "No image file provided",
  in both cases whatever the service would have answered. The second answers 500 with the
  runtime's \<open>TypeError\<close>, whatever the analyzers would have done. No findings are computed.
  The placeholder verifier does not read the body or the files of the request: it
  answers 200 with a report, the same whatever they are.
\<close>

theorem missing_image_refused:
  assumes "req_method req = ''POST''"
    and "body req = None
         \<or> (\<exists>b. body req = Some b \<and> \<not> truthy_string (body_file b) \<and> body_image b = None)"
    and "files req = None \<or> (\<exists>fs. files req = Some fs \<and> files_file fs = None)"
  shows "(truthy_string (SIGHTENGINE_API_USER env) \<and> truthy_string (SIGHTENGINE_API_SECRET env) \<longrightarrow>
            handler_sightengine env fetch req r = Status500 (Error ''No image file provided''))
       \<and> (\<not> (truthy_string (SIGHTENGINE_API_USER env) \<and> truthy_string (SIGHTENGINE_API_SECRET env)) \<longrightarrow>
            handler_sightengine env fetch req r = Status500 (Error ''Sightengine credentials not configured''))
       \<and> handler_sightengine env fetch req r \<in>
            {Status500 (Error ''Sightengine credentials not configured''),
             Status500 (Error ''No image file provided'')}
       \<and> handler_canvas req a1 a2 a3 a4 = Status500 TypeError
       \<and> handler_placeholder req r1 r2 r3 r4 r5 =
            Status200 (handler_body (checkMetadata r1) (checkCompression r2) (checkFonts r3)
                         (checkTemplate r4 r5))
       \<and> handler_placeholder (req\<lparr>body := b', files := f'\<rparr>) r1 r2 r3 r4 r5 =
            handler_placeholder req r1 r2 r3 r4 r5"
proof -
  have "media req = Inl (Error ''No image file provided'')"
    using assms(2,3) by (intro media_missing) auto
  moreover have "imageBuffer req = Inl TypeError"
    using assms(2) by (rule imageBuffer_missing)
  ultimately show ?thesis
    using assms(1) by (simp add: handler_sightengine_def handler_canvas_def handler_placeholder_def)
qed

text \<open>
  A POST request whose body has neither file nor image: refused by the Sightengine-backed
  verifier with and without credentials, refused by the canvas-backed verifier.
\<close>

theorem missing_image_refused_witness:
  "handler_sightengine \<lparr>SIGHTENGINE_API_USER = Some ''user'', SIGHTENGINE_API_SECRET = Some ''secret''\<rparr>
      (\<lambda>form. Responds \<lparr>ok = True, http_status = 200,
          json = Inr \<lparr>data_type = None, data_quality = None, data_faces = None\<rparr>\<rparr>)
      \<lparr>req_method = ''POST'', body = Some \<lparr>body_file = None, body_image = None\<rparr>, files = None\<rparr> 0
     = Status500 (Error ''No image file provided'')
   \<and> handler_sightengine \<lparr>SIGHTENGINE_API_USER = None, SIGHTENGINE_API_SECRET = Some ''secret''\<rparr>
      (\<lambda>form. Responds \<lparr>ok = True, http_status = 200,
          json = Inr \<lparr>data_type = None, data_quality = None, data_faces = None\<rparr>\<rparr>)
      \<lparr>req_method = ''POST'', body = Some \<lparr>body_file = None, body_image = None\<rparr>, files = None\<rparr> 0
     = Status500 (Error ''Sightengine credentials not configured'')
   \<and> handler_canvas \<lparr>req_method = ''POST'', body = Some \<lparr>body_file = None, body_image = None\<rparr>, files = None\<rparr>
        (Yields ()) (Yields 0) (Yields 0) (Yields (0, 1/2)) = Status500 TypeError"
  using missing_image_refused [of "\<lparr>req_method = ''POST'', body = Some \<lparr>body_file = None, body_image = None\<rparr>, files = None\<rparr>"
      "\<lparr>SIGHTENGINE_API_USER = Some ''user'', SIGHTENGINE_API_SECRET = Some ''secret''\<rparr>"
      "(\<lambda>form. Responds \<lparr>ok = True, http_status = 200,
          json = Inr \<lparr>data_type = None, data_quality = None, data_faces = None\<rparr>\<rparr>)" 0
      "Yields ()" "Yields 0" "Yields 0" "Yields (0, 1/2)"]
    missing_image_refused [of "\<lparr>req_method = ''POST'', body = Some \<lparr>body_file = None, body_image = None\<rparr>, files = None\<rparr>"
      "\<lparr>SIGHTENGINE_API_USER = None, SIGHTENGINE_API_SECRET = Some ''secret''\<rparr>"
      "(\<lambda>form. Responds \<lparr>ok = True, http_status = 200,
          json = Inr \<lparr>data_type = None, data_quality = None, data_faces = None\<rparr>\<rparr>)" 0
      "Yields ()" "Yields 0" "Yields 0" "Yields (0, 1/2)"]
  by (simp add: truthy_string_def)

section \<open>The checks of the Sightengine-backed verifier\<close>

text \<open>
  C7 holds for every score but 0 (lemma \<open>ai_banding\<close>). At the score 0 the code
  departs from it: the guard \<open>data.type && data.type.ai_generated\<close> takes the number 0
  for a missing score, so the check pushes no finding at all, where the claim has the
  positive "AI Detection" finding. The report then holds the layout finding only.
\<close>

theorem ai_score_zero_no_finding:
  "check_ai \<lparr>data_type = Some \<lparr>ai_generated = Some 0\<rparr>, data_quality = None, data_faces = None\<rparr> ([], 100)
     = ([], 100)
   \<and> se_findings (sightengine_body
        \<lparr>data_type = Some \<lparr>ai_generated = Some 0\<rparr>, data_quality = None, data_faces = None\<rparr> 0)
     = [\<lparr>category = ''Layout Analysis'', status = ''neutral'',
         detail = ''Analyzing against FanDuel template patterns.''\<rparr>]"
  by (simp add: sightengine_body_def check_ai_def check_quality_def check_faces_def truthy_number_def
      Let_def interpolate_def js_index_def Math_floor_def knownSportsbooks_se_def)

text \<open>
  C10, as stated, fails on a response without a \<open>quality\<close> object (the response to the
  handler's own request, which asks for the model \<open>genai\<close> only): the quality check then
  pushes no finding at all, where the claim has a positive one.
\<close>

theorem no_quality_no_finding:
  "check_quality
      \<lparr>data_type = Some \<lparr>ai_generated = Some 0.25\<rparr>, data_quality = None, data_faces = None\<rparr>
      ([], 100)
     = ([], 100)
   \<and> map category (se_findings (sightengine_body
        \<lparr>data_type = Some \<lparr>ai_generated = Some 0.25\<rparr>, data_quality = None, data_faces = None\<rparr> 0))
     = [''AI Detection'', ''Layout Analysis'']"
  by (simp add: sightengine_body_def check_ai_def check_quality_def check_faces_def Let_def
      truthy_number_def)

text \<open>
  C10, amended. When the response has a \<open>quality\<close> object whose \<open>score\<close> is a number below
  0.5, the quality check pushes the negative "Image Quality" finding and takes 15 off the
  score; when it has a \<open>quality\<close> object whose \<open>score\<close> is a number not below 0.5 or is
  undefined, it pushes the positive finding and takes nothing off; when it has no
  \<open>quality\<close> object, the check pushes no finding and takes nothing off. When the response
  lists at least one face, the face check pushes the negative "Content Analysis" finding
  and takes 20 off; when it lists none, the check pushes no finding and takes nothing off.
  The amounts taken off enter the confidence of the report.
\<close>

theorem quality_and_faces_deductions:
  "(data_quality d = Some q \<and> score q = Number v \<and> v < 0.5 \<longrightarrow>
      check_quality d (fs, s) =
        (fs @ [\<lparr>category = ''Image Quality'', status = ''negative'',
               detail = ''Poor image quality may indicate screenshot or re-photograph of original.''\<rparr>],
         s - 15)
      \<and> deducted (check_quality d) = 15)
   \<and> (data_quality d = Some q \<and> (score q = Undefined \<or> (score q = Number v \<and> \<not> v < 0.5)) \<longrightarrow>
      check_quality d (fs, s) =
        (fs @ [\<lparr>category = ''Image Quality'', status = ''positive'',
               detail = ''Image quality consistent with direct capture.''\<rparr>],
         s)
      \<and> deducted (check_quality d) = 0)
   \<and> (data_quality d = None \<longrightarrow>
      check_quality d (fs, s) = (fs, s) \<and> deducted (check_quality d) = 0)
   \<and> (data_faces d = Some faces \<and> length faces > 0 \<longrightarrow>
      check_faces d (fs, s) =
        (fs @ [\<lparr>category = ''Content Analysis'', status = ''negative'',
               detail = ''Unexpected content detected (faces found in image).''\<rparr>],
         s - 20)
      \<and> deducted (check_faces d) = 20)
   \<and> (data_faces d = None \<or> data_faces d = Some [] \<longrightarrow>
      check_faces d (fs, s) = (fs, s) \<and> deducted (check_faces d) = 0)
   \<and> se_confidence (sightengine_body d r) =
        max 0 (min 100 (100 - (deducted (check_ai d) + deducted (check_quality d) + deducted (check_faces d))))"
proof -
  have 1: "data_quality d = Some q \<and> score q = Number v \<and> v < 0.5 \<longrightarrow>
      check_quality d (fs, s) =
        (fs @ [\<lparr>category = ''Image Quality'', status = ''negative'',
               detail = ''Poor image quality may indicate screenshot or re-photograph of original.''\<rparr>],
         s - 15)
      \<and> deducted (check_quality d) = 15"
    by (simp add: check_quality_def deducted_def js_less_def)
  have 2: "data_quality d = Some q \<and> (score q = Undefined \<or> (score q = Number v \<and> \<not> v < 0.5)) \<longrightarrow>
      check_quality d (fs, s) =
        (fs @ [\<lparr>category = ''Image Quality'', status = ''positive'',
               detail = ''Image quality consistent with direct capture.''\<rparr>],
         s)
      \<and> deducted (check_quality d) = 0"
    by (auto simp add: check_quality_def deducted_def js_less_def)
  have 3: "data_quality d = None \<longrightarrow>
      check_quality d (fs, s) = (fs, s) \<and> deducted (check_quality d) = 0"
    by (simp add: check_quality_absent deducted_def)
  have 4: "data_faces d = Some faces \<and> length faces > 0 \<longrightarrow>
      check_faces d (fs, s) =
        (fs @ [\<lparr>category = ''Content Analysis'', status = ''negative'',
               detail = ''Unexpected content detected (faces found in image).''\<rparr>],
         s - 20)
      \<and> deducted (check_faces d) = 20"
    by (simp add: check_faces_def deducted_def)
  have 5: "data_faces d = None \<or> data_faces d = Some [] \<longrightarrow>
      check_faces d (fs, s) = (fs, s) \<and> deducted (check_faces d) = 0"
    by (simp add: check_faces_absent deducted_def)
  have 6: "se_confidence (sightengine_body d r) =
        max 0 (min 100 (100 - (deducted (check_ai d) + deducted (check_quality d) + deducted (check_faces d))))"
    by (simp add: se_confidence_eq checks_score)
  show ?thesis using 1 2 3 4 5 6 by blast
qed

text \<open>
  A poor quality and a face take 15 and 20 off; a good quality gives the positive finding;
  a response without quality and faces leaves findings and score as they were.
\<close>

theorem quality_and_faces_deductions_witness:
  "check_quality \<lparr>data_type = None, data_quality = Some \<lparr>score = Number 0.25\<rparr>, data_faces = Some [()]\<rparr> ([], 100)
     = ([\<lparr>category = ''Image Quality'', status = ''negative'',
          detail = ''Poor image quality may indicate screenshot or re-photograph of original.''\<rparr>], 85)
   \<and> check_faces \<lparr>data_type = None, data_quality = Some \<lparr>score = Number 0.25\<rparr>, data_faces = Some [()]\<rparr> ([], 85)
     = ([\<lparr>category = ''Content Analysis'', status = ''negative'',
          detail = ''Unexpected content detected (faces found in image).''\<rparr>], 65)
   \<and> check_quality \<lparr>data_type = None, data_quality = Some \<lparr>score = Number 0.75\<rparr>, data_faces = None\<rparr> ([], 100)
     = ([\<lparr>category = ''Image Quality'', status = ''positive'',
          detail = ''Image quality consistent with direct capture.''\<rparr>], 100)
   \<and> check_quality \<lparr>data_type = None, data_quality = None, data_faces = None\<rparr> ([], 100) = ([], 100)
   \<and> check_faces \<lparr>data_type = None, data_quality = None, data_faces = None\<rparr> ([], 100) = ([], 100)"
  using quality_and_faces_deductions [of "\<lparr>data_type = None, data_quality = Some \<lparr>score = Number 0.25\<rparr>, data_faces = Some [()]\<rparr>"
          "\<lparr>score = Number 0.25\<rparr>" "0.25" "[]" 100 "[()]" 0]
        quality_and_faces_deductions [of "\<lparr>data_type = None, data_quality = Some \<lparr>score = Number 0.25\<rparr>, data_faces = Some [()]\<rparr>"
          "\<lparr>score = Number 0.25\<rparr>" "0.25" "[]" 85 "[()]" 0]
        quality_and_faces_deductions [of "\<lparr>data_type = None, data_quality = Some \<lparr>score = Number 0.75\<rparr>, data_faces = None\<rparr>"
          "\<lparr>score = Number 0.75\<rparr>" "0.75" "[]" 100 "[]" 0]
        quality_and_faces_deductions [of "\<lparr>data_type = None, data_quality = None, data_faces = None\<rparr>"
          "\<lparr>score = Undefined\<rparr>" "0" "[]" 100 "[]" 0]
  by simp

section \<open>The order of the analyzers\<close>

text \<open>
  C8. The handler is the scoring algorithm run in the order metadata, compression, fonts,
  template. Run in any other order of the four analyzers, on the same analyzer results,
  it gives the same confidence, the same verdict and the same sportsbook; the findings
  are the same, listed in the order the analyzers ran.
\<close>

theorem analyzer_order_irrelevant:
  assumes "mset order = mset [Metadata, Compression, Fonts, Template]"
  shows "score_in_order [Metadata, Compression, Fonts, Template] result =
           handler_body (result Metadata) (result Compression) (result Fonts) (result Template)
       \<and> confidence (score_in_order order result) =
           confidence (handler_body (result Metadata) (result Compression) (result Fonts) (result Template))
       \<and> verdict (score_in_order order result) =
           verdict (handler_body (result Metadata) (result Compression) (result Fonts) (result Template))
       \<and> sportsbook (score_in_order order result) =
           sportsbook (handler_body (result Metadata) (result Compression) (result Fonts) (result Template))
       \<and> findings (score_in_order order result) = map (\<lambda>a. finding (result a)) order
       \<and> mset (findings (score_in_order order result)) =
           mset (findings (handler_body (result Metadata) (result Compression) (result Fonts) (result Template)))"
proof -
  let ?h = "handler_body (result Metadata) (result Compression) (result Fonts) (result Template)"
  have declared: "score_in_order [Metadata, Compression, Fonts, Template] result = ?h"
    by (simp add: score_in_order_def handler_body_def Let_def)
  have sum: "sum_list (map (\<lambda>a. penalty (result a)) order) =
      penalty (result Metadata) + penalty (result Compression) + penalty (result Fonts)
        + penalty (result Template)"
    using assms by (rule sum_list_permutation)
  have c: "confidence (score_in_order order result) = confidence ?h"
    by (simp add: score_in_order_def run_analyzers_eq Let_def Math_round_of_int confidence_eq sum)
  have v: "verdict (score_in_order order result) =
      (if confidence (score_in_order order result) \<ge> 70 then ''Likely Legitimate''
       else ''Likely Fabricated'')"
    by (simp add: score_in_order_def run_analyzers_eq Let_def Math_round_of_int)
  have s: "sportsbook (score_in_order order result) = sportsbook ?h"
    by (simp add: score_in_order_def run_analyzers_eq Let_def sportsbook_eq)
  have f: "findings (score_in_order order result) = map (\<lambda>a. finding (result a)) order"
    by (simp add: score_in_order_def run_analyzers_eq Let_def)
  have "mset (findings (score_in_order order result)) =
      image_mset (\<lambda>a. finding (result a)) (mset order)"
    by (simp add: f)
  also have "\<dots> = image_mset (\<lambda>a. finding (result a)) (mset [Metadata, Compression, Fonts, Template])"
    by (simp only: assms)
  also have "\<dots> = mset (findings ?h)"
    by (simp add: findings_eq)
  finally have m: "mset (findings (score_in_order order result)) = mset (findings ?h)" .
  show ?thesis
    using declared c v s f m by (simp add: verdict_eq)
qed

text \<open>The four analyzers run in the reverse order, on results that deduct 30 and 20.\<close>

theorem analyzer_order_irrelevant_witness:
  "confidence (score_in_order [Template, Fonts, Compression, Metadata]
      (\<lambda>a. case a of Metadata \<Rightarrow> checkMetadata 0.9 | Compression \<Rightarrow> checkCompression 0
                    | Fonts \<Rightarrow> checkFonts 0.9 | Template \<Rightarrow> checkTemplate (1/2) (1/2))) = 50
   \<and> verdict (score_in_order [Template, Fonts, Compression, Metadata]
      (\<lambda>a. case a of Metadata \<Rightarrow> checkMetadata 0.9 | Compression \<Rightarrow> checkCompression 0
                    | Fonts \<Rightarrow> checkFonts 0.9 | Template \<Rightarrow> checkTemplate (1/2) (1/2))) = ''Likely Fabricated''
   \<and> sportsbook (score_in_order [Template, Fonts, Compression, Metadata]
      (\<lambda>a. case a of Metadata \<Rightarrow> checkMetadata 0.9 | Compression \<Rightarrow> checkCompression 0
                    | Fonts \<Rightarrow> checkFonts 0.9 | Template \<Rightarrow> checkTemplate (1/2) (1/2))) = ''BetMGM''
   \<and> map category (findings (score_in_order [Template, Fonts, Compression, Metadata]
      (\<lambda>a. case a of Metadata \<Rightarrow> checkMetadata 0.9 | Compression \<Rightarrow> checkCompression 0
                    | Fonts \<Rightarrow> checkFonts 0.9 | Template \<Rightarrow> checkTemplate (1/2) (1/2))))
     = [''Layout Match'', ''Font Mismatch'', ''Compression'', ''Metadata'']"
proof -
  let ?result = "\<lambda>a. case a of Metadata \<Rightarrow> checkMetadata 0.9 | Compression \<Rightarrow> checkCompression 0
                    | Fonts \<Rightarrow> checkFonts 0.9 | Template \<Rightarrow> checkTemplate (1/2) (1/2)"
  have p: "mset [Template, Fonts, Compression, Metadata] = mset [Metadata, Compression, Fonts, Template]"
    by (simp add: add_mset_commute)
  have h: "handler_body (checkMetadata 0.9) (checkCompression 0) (checkFonts 0.9) (checkTemplate (1/2) (1/2))
     = \<lparr>verdict = ''Likely Fabricated'', confidence = 50,
       findings =
         [\<lparr>category = ''Metadata'', status = ''negative'',
             detail = ''Image shows signs of editing software usage.''\<rparr>,
          \<lparr>category = ''Compression'', status = ''positive'',
             detail = ''Compression artifacts appear uniform across image.''\<rparr>,
          \<lparr>category = ''Font Mismatch'', status = ''negative'',
             detail = ''Multiple font styles detected where uniform font is expected.''\<rparr>,
          \<lparr>category = ''Layout Match'', status = ''positive'',
             detail = ''Slip layout matches known BetMGM template.''\<rparr>],
       sportsbook = ''BetMGM''\<rparr>"
    by (simp add: handler_body_def checkMetadata_def checkCompression_def checkFonts_def
        checkTemplate_def Let_def Math_round_of_int or_else_def interpolate_def js_index_def
        Math_floor_def knownSportsbooks_def)
  have f: "map category (map (\<lambda>a. finding (?result a)) [Template, Fonts, Compression, Metadata])
     = [''Layout Match'', ''Font Mismatch'', ''Compression'', ''Metadata'']"
    by (simp add: checkMetadata_def checkCompression_def checkFonts_def checkTemplate_def Let_def)
  show ?thesis
    using analyzer_order_irrelevant [OF p, of ?result] f by (simp add: h)
qed

section \<open>The placeholder verifier never clamps\<close>

text \<open>
  C9. In the placeholder verifier the four penalties are drawn from \<open>{0, 30}\<close>,
  \<open>{0, 25}\<close>, \<open>{0, 20}\<close> and \<open>{0, 25}\<close> (each value is reached), their sum lies between 0
  and 100, the clamp changes nothing, and the confidence of the report of a POST request
  is 100 minus the sum.
\<close>

theorem placeholder_clamp_identity:
  "penalty (checkMetadata r1) \<in> {0, 30}
   \<and> penalty (checkCompression r2) \<in> {0, 25}
   \<and> penalty (checkFonts r3) \<in> {0, 20}
   \<and> penalty (checkTemplate r4 r5) \<in> {0, 25}
   \<and> 0 \<le> penalty (checkMetadata r1) + penalty (checkCompression r2) + penalty (checkFonts r3)
          + penalty (checkTemplate r4 r5)
   \<and> penalty (checkMetadata r1) + penalty (checkCompression r2) + penalty (checkFonts r3)
          + penalty (checkTemplate r4 r5) \<le> 100
   \<and> max 0 (min 100 (100 - (penalty (checkMetadata r1) + penalty (checkCompression r2)
          + penalty (checkFonts r3) + penalty (checkTemplate r4 r5))))
       = 100 - (penalty (checkMetadata r1) + penalty (checkCompression r2)
          + penalty (checkFonts r3) + penalty (checkTemplate r4 r5))
   \<and> confidence (handler_body (checkMetadata r1) (checkCompression r2) (checkFonts r3) (checkTemplate r4 r5))
       = 100 - (penalty (checkMetadata r1) + penalty (checkCompression r2)
          + penalty (checkFonts r3) + penalty (checkTemplate r4 r5))
   \<and> handler_placeholder (req\<lparr>req_method := ''POST''\<rparr>) r1 r2 r3 r4 r5
       = Status200 (handler_body (checkMetadata r1) (checkCompression r2) (checkFonts r3) (checkTemplate r4 r5))
   \<and> penalty (checkMetadata 0.9) = 30 \<and> penalty (checkMetadata 0.5) = 0
   \<and> penalty (checkCompression 0.9) = 25 \<and> penalty (checkCompression 0.5) = 0
   \<and> penalty (checkFonts 0.9) = 20 \<and> penalty (checkFonts 0.5) = 0
   \<and> penalty (checkTemplate 0.5 0.1) = 25 \<and> penalty (checkTemplate 0.5 0.5) = 0"
  by (simp add: confidence_eq handler_placeholder_def checkMetadata_penalty checkCompression_penalty
      checkFonts_penalty checkTemplate_penalty)

end
